theory Spec2Isabelle
  imports Complex_Main "HOL-Library.Multiset"
begin

section \<open>ScoreMyFood: the scan screen (app/(tabs)/index.tsx)\<close>

subsection \<open>Data model\<close>

text \<open>
  The TypeScript declarations
  \<^verbatim>\<open>
  type OcrLine = { text: string; confidence?: number };
  type Structured = {
    ingredients?: { name: string; percent?: number | null }[];
    allergens?: string[];
    additives?: { code: string; name?: string | null }[];
    flags?: Record<string, boolean>;
  };
  \<close>
  An optional field is an \<open>option\<close> (\<open>None\<close> is \<open>undefined\<close>). A
  \<open>Record<string, boolean>\<close> is an object: its own properties in insertion order, as an
  association list whose keys are distinct; reading a property is \<open>map_of\<close>. Numbers
  are given by their value; the score only ever holds small integers, on which
  JavaScript's double arithmetic is exact, so it is an \<open>int\<close>.
\<close>

record ingredient =
  ingredient_name :: string
  percent :: "rat option"

record additive =
  code :: string
  additive_name :: "string option"

type_synonym flag_record = "(string \<times> bool) list"

record Structured =
  ingredients :: "ingredient list option"
  allergens :: "string list option"
  additives :: "additive list option"
  flags :: "flag_record option"

subsection \<open>Score engine\<close>

text \<open>
  \<open>s.flags?.k\<close> used as a condition: \<open>undefined\<close> flags, a missing key and the value
  \<open>false\<close> are all falsy; only a key bound to \<open>true\<close> is truthy.
\<close>

definition flag :: "Structured \<Rightarrow> string \<Rightarrow> bool" where
  "flag s k =
     (case flags s of
        None \<Rightarrow> False
      | Some fl \<Rightarrow> (case map_of fl k of None \<Rightarrow> False | Some b \<Rightarrow> b))"

text \<open>
  \<open>s.additives?.length || 0\<close>: the length of the array, and 0 when the field is
  \<open>undefined\<close> (a length of 0 is falsy and is replaced by 0).
\<close>

definition additive_count :: "Structured \<Rightarrow> int" where
  "additive_count s =
     (case additives s of
        None \<Rightarrow> 0
      | Some a \<Rightarrow> (if int (length a) = 0 then 0 else int (length a)))"

text \<open>
  The local constant
  \<open>const additivePenalty = Math.min((s.additives?.length || 0) * 2, 20)\<close>.
\<close>

definition additivePenalty :: "Structured \<Rightarrow> int" where
  "additivePenalty s = min (additive_count s * 2) 20"

text \<open>
  \<^verbatim>\<open>
  function computeHealthScore(s: Structured | null): number | null {
    if (!s) return null;
    let score = 100;
    if (s.flags?.palmOil) score -= 10;
    if (s.flags?.addedSugar) score -= 15;
    if (s.flags?.addedSalt) score -= 10;
    if (s.flags?.msgLikeEnhancer) score -= 15;
    const additivePenalty = Math.min((s.additives?.length || 0) * 2, 20);
    score -= additivePenalty;
    return Math.max(0, score);
  }
  \<close>
  \<open>null\<close> is \<open>None\<close>; every object is truthy, so \<open>!s\<close> holds for \<open>null\<close> only.
\<close>

definition computeHealthScore :: "Structured option \<Rightarrow> int option" where
  "computeHealthScore so =
     (case so of
        None \<Rightarrow> None
      | Some s \<Rightarrow>
          (let score = 100;
               score = (if flag s ''palmOil'' then score - 10 else score);
               score = (if flag s ''addedSugar'' then score - 15 else score);
               score = (if flag s ''addedSalt'' then score - 10 else score);
               score = (if flag s ''msgLikeEnhancer'' then score - 15 else score);
               score = score - additivePenalty s
           in Some (max 0 score)))"

text \<open>
  Assigning a property of an object, \<open>obj[k] = v\<close>: an existing key keeps its place
  and takes the new value, a new key goes to the end.
\<close>

fun assign :: "string \<Rightarrow> 'v \<Rightarrow> (string \<times> 'v) list \<Rightarrow> (string \<times> 'v) list" where
  "assign k v [] = [(k, v)]"
| "assign k v (p # ps) = (if fst p = k then (k, v) # ps else p # assign k v ps)"

text \<open>An object built by assigning the entries in the order given.\<close>

definition build :: "(string \<times> 'v) list \<Rightarrow> (string \<times> 'v) list" where
  "build es = foldl (\<lambda>obj e. assign (fst e) (snd e) obj) [] es"

text \<open>The four keys of the penalty table.\<close>

definition scored_keys :: "string list" where
  "scored_keys = [''palmOil'', ''addedSugar'', ''addedSalt'', ''msgLikeEnhancer'']"


text \<open>
  The score as the specification words it, for comparison with the code: start at 100,
  subtract the table's penalty for each flag that is present and true, subtract
  \<open>min(2 \<times> additive_count, 20)\<close>, clamp at 0.
\<close>

definition penalty_table :: "(string \<times> int) list" where
  "penalty_table =
     [(''palmOil'', 10), (''addedSugar'', 15), (''addedSalt'', 10), (''msgLikeEnhancer'', 15)]"

definition present_and_true :: "Structured \<Rightarrow> string \<Rightarrow> bool" where
  "present_and_true s k =
     (case flags s of None \<Rightarrow> False | Some fl \<Rightarrow> map_of fl k = Some True)"

definition spec_score :: "Structured \<Rightarrow> int" where
  "spec_score s =
     max 0 (100 - (\<Sum>(k, p) \<leftarrow> penalty_table. if present_and_true s k then p else 0)
                - min (2 * (case additives s of None \<Rightarrow> 0 | Some a \<Rightarrow> int (length a))) 20)"


subsection \<open>Values the controller handles\<close>

text \<open>
  \<open>resp.json()\<close> has type \<open>any\<close>: a parsed JSON value. An object is the list of its
  own properties (distinct keys), read with \<open>map_of\<close>. A number is given by its value;
  only whether it is zero matters below.
\<close>

datatype jsval =
    JNull
  | JBool bool
  | JNum rat
  | JStr string
  | JArr "jsval list"
  | JObj "(string \<times> jsval) list"

text \<open>JavaScript truthiness of a JSON value.\<close>

fun truthy :: "jsval \<Rightarrow> bool" where
  "truthy JNull = False"
| "truthy (JBool b) = b"
| "truthy (JNum x) = (x \<noteq> 0)"
| "truthy (JStr t) = (t \<noteq> [])"
| "truthy (JArr _) = True"
| "truthy (JObj _) = True"

text \<open>
  \<open>json?.k\<close> for a name \<open>k\<close> that no built-in prototype defines (\<open>lines\<close>,
  \<open>structured\<close>): \<open>None\<close> is \<open>undefined\<close>. On \<open>null\<close> the optional chain stops;
  a primitive or an array has no such property.
\<close>

fun member :: "jsval \<Rightarrow> string \<Rightarrow> jsval option" where
  "member (JObj kvs) k = map_of kvs k"
| "member _ k = None"

text \<open>\<open>a || b\<close> where \<open>a\<close> may be \<open>undefined\<close>.\<close>

definition js_or :: "jsval option \<Rightarrow> jsval \<Rightarrow> jsval" where
  "js_or a b = (case a of None \<Rightarrow> b | Some v \<Rightarrow> if truthy v then v else b)"

text \<open>
  A thrown value as the \<open>catch\<close> block reads it: \<open>Thrown m\<close> is a value whose
  \<open>message\<close> property reads as \<open>m\<close> (\<open>None\<close> when it has none), \<open>Nullish\<close> is a thrown
  \<open>null\<close> or \<open>undefined\<close>, on which reading \<open>message\<close> itself throws.
\<close>

datatype thrown = Thrown "string option" | Nullish

text \<open>
  What an awaited promise does: it resolves with a value, rejects with a thrown value,
  or never settles.
\<close>

datatype 'a outcome = Resolves 'a | Rejects thrown | Pending

record asset =
  uri :: string

record pickerResult =
  canceled :: bool
  assets :: "asset list option"

record response =
  ok :: bool
  status :: nat
  json :: "jsval outcome"

type_synonym blob = string

text \<open>
  The value appended to the form under a field name: a blob with a file name (web), or
  the object \<open>{uri, name, type}\<close> (native).
\<close>

datatype filePart = Blob_file blob string | Native_file string string string

type_synonym formData = "(string \<times> filePart) list"

text \<open>
  The calls the controller makes to the outside, in the order it makes them:
  the image library with \<open>allowsEditing\<close>, the permission prompt, the camera with
  \<open>quality\<close>, a GET of a local URI, the POST of a form to a URL, and
  \<open>Alert.alert(title, message)\<close>.
\<close>

datatype effect =
    Launch_library bool
  | Request_permission
  | Launch_camera nat
  | Fetch_get string
  | Fetch_post string formData
  | Alert string string

text \<open>
  The outside world of one scan: \<open>Platform.OS\<close>, how each awaited call settles, and
  the \<open>TypeError\<close> the engine raises on reading a property of \<open>undefined\<close> or
  \<open>null\<close> (its message depends on the engine). \<open>fetch_blob\<close> stands for
  \<open>(await fetch(uri)).blob()\<close>.
\<close>

record env =
  platformOS :: string
  launchImageLibraryAsync :: "pickerResult outcome"
  requestCameraPermissionsAsync :: "string outcome"
  launchCameraAsync :: "pickerResult outcome"
  fetch_blob :: "string \<Rightarrow> blob outcome"
  fetch_post :: "string \<Rightarrow> formData \<Rightarrow> response outcome"
  typeError :: thrown

text \<open>
  The four \<open>useState\<close> cells of \<open>HomeTab\<close>. TypeScript's types are erased at run
  time and the response is \<open>any\<close>, so \<open>lines\<close> and \<open>structured\<close> hold the JSON values
  they were given: \<open>JArr []\<close> is \<open>[]\<close>, \<open>JNull\<close> is \<open>null\<close>.
\<close>

record session =
  imageUri :: "string option"
  lines :: jsval
  structured :: jsval
  busy :: bool

definition initial_session :: session where
  "initial_session = \<lparr>imageUri = None, lines = JArr [], structured = JNull, busy = False\<rparr>"

subsection \<open>Asynchronous code as state passing\<close>

text \<open>
  A piece of the \<open>async\<close> function takes the session and gives the session it leaves,
  the outside calls it made, and how it completed. Once a step is \<open>Pending\<close> nothing
  after it runs.
\<close>

type_synonym 'a action = "session \<Rightarrow> session \<times> effect list \<times> 'a outcome"

definition final_state :: "session \<times> effect list \<times> 'a outcome \<Rightarrow> session" where
  "final_state x = fst x"

definition effects :: "session \<times> effect list \<times> 'a outcome \<Rightarrow> effect list" where
  "effects x = fst (snd x)"

definition completion :: "session \<times> effect list \<times> 'a outcome \<Rightarrow> 'a outcome" where
  "completion x = snd (snd x)"

definition return :: "'a \<Rightarrow> 'a action" where
  "return v = (\<lambda>s. (s, [], Resolves v))"

definition throw :: "thrown \<Rightarrow> 'a action" where
  "throw e = (\<lambda>s. (s, [], Rejects e))"

text \<open>\<open>await\<close> of an outside call, and of a promise already in hand.\<close>

definition await :: "effect \<Rightarrow> 'a outcome \<Rightarrow> 'a action" where
  "await call r = (\<lambda>s. (s, [call], r))"

definition settle :: "'a outcome \<Rightarrow> 'a action" where
  "settle r = (\<lambda>s. (s, [], r))"

text \<open>Sequencing: the rest runs only when the first part resolves.\<close>

definition bind :: "'a action \<Rightarrow> ('a \<Rightarrow> 'b action) \<Rightarrow> 'b action" where
  "bind m f = (\<lambda>s.
     case m s of
       (s', fx, Resolves v) \<Rightarrow> (case f v s' of (s'', fx', r) \<Rightarrow> (s'', fx @ fx', r))
     | (s', fx, Rejects e) \<Rightarrow> (s', fx, Rejects e)
     | (s', fx, Pending) \<Rightarrow> (s', fx, Pending))"

text \<open>\<open>try { m } catch (e) { h e }\<close>.\<close>

definition try_catch :: "'a action \<Rightarrow> (thrown \<Rightarrow> 'a action) \<Rightarrow> 'a action" where
  "try_catch m h = (\<lambda>s.
     case m s of
       (s', fx, Rejects e) \<Rightarrow> (case h e s' of (s'', fx', r) \<Rightarrow> (s'', fx @ fx', r))
     | (s', fx, r) \<Rightarrow> (s', fx, r))"

text \<open>
  \<open>try { m } finally { f }\<close>: \<open>f\<close> runs whenever \<open>m\<close> completes, by return or by
  throw, and the completion of \<open>m\<close> stands unless \<open>f\<close> itself throws. It does not run
  while \<open>m\<close> is pending.
\<close>

definition try_finally :: "'a action \<Rightarrow> unit action \<Rightarrow> 'a action" where
  "try_finally m f = (\<lambda>s.
     case m s of
       (s', fx, Pending) \<Rightarrow> (s', fx, Pending)
     | (s', fx, r) \<Rightarrow>
         (case f s' of
            (s'', fx', Resolves _) \<Rightarrow> (s'', fx @ fx', r)
          | (s'', fx', Rejects e) \<Rightarrow> (s'', fx @ fx', Rejects e)
          | (s'', fx', Pending) \<Rightarrow> (s'', fx @ fx', Pending)))"

definition setImageUri :: "string option \<Rightarrow> unit action" where
  "setImageUri v = (\<lambda>s. (s\<lparr>imageUri := v\<rparr>, [], Resolves ()))"

definition setLines :: "jsval \<Rightarrow> unit action" where
  "setLines v = (\<lambda>s. (s\<lparr>lines := v\<rparr>, [], Resolves ()))"

definition setStructured :: "jsval \<Rightarrow> unit action" where
  "setStructured v = (\<lambda>s. (s\<lparr>structured := v\<rparr>, [], Resolves ()))"

definition setBusy :: "bool \<Rightarrow> unit action" where
  "setBusy v = (\<lambda>s. (s\<lparr>busy := v\<rparr>, [], Resolves ()))"

subsection \<open>Backend client\<close>

text \<open>
  \<^verbatim>\<open>
  const BACKEND_URL =
    Platform.OS === "web" ? "http://127.0.0.1:8000" : "http://192.168.1.35:8000";
  \<close>
\<close>

definition BACKEND_URL :: "env \<Rightarrow> string" where
  "BACKEND_URL env =
     (if platformOS env = ''web'' then ''http://127.0.0.1:8000''
      else ''http://192.168.1.35:8000'')"

text \<open>
  The template literal \<open>`${resp.status}`\<close>: the decimal digits of a non-negative
  integer.
\<close>

definition digit :: "nat \<Rightarrow> char" where
  "digit d = ''0123456789'' ! d"

function string_of_nat :: "nat \<Rightarrow> string" where
  "string_of_nat n =
     (if n < 10 then [digit n] else string_of_nat (n div 10) @ [digit (n mod 10)])"
  by pat_completeness auto
termination
  by (relation "measure id") auto

text \<open>Reading a decimal numeral back, to check \<open>string_of_nat\<close> against.\<close>

definition digit_value :: "char \<Rightarrow> nat" where
  "digit_value c = of_char c - 48"

definition decimal_value :: "string \<Rightarrow> nat" where
  "decimal_value ds = foldl (\<lambda>acc c. 10 * acc + digit_value c) 0 ds"

text \<open>
  \<^verbatim>\<open>
  const uploadToBackend = async (form: FormData) => {
    const resp = await fetch(`${BACKEND_URL}/ocr`, { method: "POST", body: form });
    if (!resp.ok) throw new Error(`Server error: ${resp.status}`);
    return resp.json();
  };
  \<close>
\<close>

definition uploadToBackend :: "env \<Rightarrow> formData \<Rightarrow> jsval action" where
  "uploadToBackend env form =
     bind (await (Fetch_post (BACKEND_URL env @ ''/ocr'') form)
                 (fetch_post env (BACKEND_URL env @ ''/ocr'') form))
       (\<lambda>resp.
          if \<not> ok resp
          then throw (Thrown (Some (''Server error: '' @ string_of_nat (status resp))))
          else settle (json resp))"

subsection \<open>Scan session controller\<close>

text \<open>
  Lines 52 to 61 of \<open>pickAndScan\<close>: the picker on the web, the permission prompt and
  the camera elsewhere.
  \<^verbatim>\<open>
  if (Platform.OS === "web") {
    result = await ImagePicker.launchImageLibraryAsync({ allowsEditing: false });
  } else {
    const { status } = await ImagePicker.requestCameraPermissionsAsync();
    if (status !== "granted") throw new Error("Camera permission denied");
    result = await ImagePicker.launchCameraAsync({ quality: 1 });
  }
  \<close>
\<close>

definition acquire :: "env \<Rightarrow> pickerResult action" where
  "acquire env =
     (if platformOS env = ''web''
      then await (Launch_library False) (launchImageLibraryAsync env)
      else bind (await Request_permission (requestCameraPermissionsAsync env))
             (\<lambda>status.
                if status \<noteq> ''granted''
                then throw (Thrown (Some ''Camera permission denied''))
                else await (Launch_camera 1) (launchCameraAsync env)))"

text \<open>
  \<open>const asset = result.assets[0]\<close> followed by \<open>asset.uri\<close>: with \<open>assets\<close> null
  the index throws, with \<open>assets\<close> empty \<open>asset\<close> is \<open>undefined\<close> and reading
  \<open>uri\<close> throws.
\<close>

definition first_asset :: "env \<Rightarrow> pickerResult \<Rightarrow> asset action" where
  "first_asset env result =
     (case assets result of
        None \<Rightarrow> throw (typeError env)
      | Some [] \<Rightarrow> throw (typeError env)
      | Some (a # _) \<Rightarrow> return a)"

text \<open>
  Lines 69 to 79: the form.
  \<^verbatim>\<open>
  let form = new FormData();
  if (Platform.OS === "web") {
    const blob = await (await fetch(asset.uri)).blob();
    form.append("file", blob, "photo.jpg");
  } else {
    form.append("file", { uri: asset.uri, name: "photo.jpg", type: "image/jpeg" } as any);
  }
  \<close>
\<close>

definition encode :: "env \<Rightarrow> asset \<Rightarrow> formData action" where
  "encode env a =
     (if platformOS env = ''web''
      then bind (await (Fetch_get (uri a)) (fetch_blob env (uri a)))
             (\<lambda>blob. return [(''file'', Blob_file blob ''photo.jpg'')])
      else return [(''file'', Native_file (uri a) ''photo.jpg'' ''image/jpeg'')])"

text \<open>
  The body of the \<open>try\<close>. The \<open>return\<close> on a cancelled result is the branch that
  skips the rest.
  \<^verbatim>\<open>
  if (result.canceled) return;
  const asset = result.assets[0];
  setImageUri(asset.uri);
  ...
  const json = await uploadToBackend(form);
  setLines(json?.lines || []);
  setStructured(json?.structured || null);
  \<close>
\<close>

definition try_block :: "env \<Rightarrow> unit action" where
  "try_block env =
     bind (acquire env) (\<lambda>result.
       if canceled result then return ()
       else
         bind (first_asset env result) (\<lambda>a.
         bind (setImageUri (Some (uri a))) (\<lambda>_.
         bind (encode env a) (\<lambda>form.
         bind (uploadToBackend env form) (\<lambda>j.
         bind (setLines (js_or (member j ''lines'') (JArr []))) (\<lambda>_.
         setStructured (js_or (member j ''structured'') JNull)))))))"

text \<open>
  \<open>catch (e: any) { Alert.alert("OCR failed", e.message || "Unknown error"); }\<close>:
  a missing or empty message is falsy.
\<close>

definition catch_block :: "env \<Rightarrow> thrown \<Rightarrow> unit action" where
  "catch_block env e =
     (case e of
        Nullish \<Rightarrow> throw (typeError env)
      | Thrown m \<Rightarrow>
          await (Alert ''OCR failed''
                   (case m of
                      None \<Rightarrow> ''Unknown error''
                    | Some t \<Rightarrow> if t = [] then ''Unknown error'' else t))
                (Resolves ()))"

text \<open>
  \<^verbatim>\<open>
  const pickAndScan = async () => {
    setLines([]);
    setStructured(null);
    setBusy(true);
    try { ... } catch (e: any) { ... } finally { setBusy(false); }
  };
  \<close>
  The function never reads \<open>busy\<close>.
\<close>

definition pickAndScan :: "env \<Rightarrow> unit action" where
  "pickAndScan env =
     bind (setLines (JArr [])) (\<lambda>_.
     bind (setStructured JNull) (\<lambda>_.
     bind (setBusy True) (\<lambda>_.
     try_finally (try_catch (try_block env) (catch_block env)) (setBusy False))))"

text \<open>
  \<open><Button ... onPress={pickAndScan} disabled={busy} />\<close>: a disabled button does
  not call its handler.
\<close>

definition Button_onPress :: "env \<Rightarrow> unit action" where
  "Button_onPress env = (\<lambda>s. if busy s then (s, [], Resolves ()) else pickAndScan env s)"

text \<open>Which outside calls are alerts, and which are uploads.\<close>

fun is_Alert :: "effect \<Rightarrow> bool" where
  "is_Alert (Alert _ _) = True"
| "is_Alert _ = False"

fun is_Fetch_post :: "effect \<Rightarrow> bool" where
  "is_Fetch_post (Fetch_post _ _) = True"
| "is_Fetch_post _ = False"

subsection \<open>Concrete inputs\<close>

text \<open>
  A product with all four scored flags and ten additives; a phone on which the camera
  delivers one photo and the server answers 500; the same phone with a server that
  answers 200 and a JSON body; a session in the middle of a scan that already shows a
  line.
\<close>

definition example_flags :: flag_record where
  "example_flags =
     [(''palmOil'', True), (''addedSugar'', True), (''addedSalt'', True),
      (''msgLikeEnhancer'', True)]"

definition example_structured :: Structured where
  "example_structured =
     \<lparr>ingredients = None, allergens = None,
      additives = Some (replicate 10 \<lparr>code = ''E330'', additive_name = None\<rparr>),
      flags = Some example_flags\<rparr>"

definition example_env :: env where
  "example_env =
     \<lparr>platformOS = ''android'',
      launchImageLibraryAsync = Pending,
      requestCameraPermissionsAsync = Resolves ''granted'',
      launchCameraAsync =
        Resolves \<lparr>canceled = False, assets = Some [\<lparr>uri = ''file:///photo.jpg''\<rparr>]\<rparr>,
      fetch_blob = (\<lambda>_. Pending),
      fetch_post = (\<lambda>_ _. Resolves \<lparr>ok = False, status = 500, json = Pending\<rparr>),
      typeError = Thrown (Some ''Cannot read property of undefined'')\<rparr>"

definition example_form :: formData where
  "example_form = [(''file'', Native_file ''file:///photo.jpg'' ''photo.jpg'' ''image/jpeg'')]"

definition example_json :: jsval where
  "example_json =
     JObj [(''lines'', JArr [JObj [(''text'', JStr ''SUGAR'')]]),
           (''structured'', JNull),
           (''elapsed'', JNum 12)]"

definition example_env_ok :: env where
  "example_env_ok =
     example_env\<lparr>fetch_post :=
       \<lambda>_ _. Resolves \<lparr>ok = True, status = 200, json = Resolves example_json\<rparr>\<rparr>"

definition example_json_structured :: jsval where
  "example_json_structured =
     JObj [(''structured'', JObj [(''flags'', JObj [(''addedSugar'', JBool True)])])]"

definition busy_session :: session where
  "busy_session =
     \<lparr>imageUri = None, lines = JArr [JObj [(''text'', JStr ''SALT'')]],
      structured = JNull, busy = True\<rparr>"

subsection \<open>Lemmas on the score engine\<close>

lemma map_of_assign: "map_of (assign k v ps) = (map_of ps)(k \<mapsto> v)"
  by (induction ps) (auto simp: fun_eq_iff)

lemma additive_count_length:
  "additive_count s = (case additives s of None \<Rightarrow> 0 | Some a \<Rightarrow> int (length a))"
  by (simp add: additive_count_def split: option.splits)

lemma additive_count_nonneg: "0 \<le> additive_count s"
  by (simp add: additive_count_length split: option.splits)

lemma additivePenalty_bounds: "0 \<le> additivePenalty s \<and> additivePenalty s \<le> 20"
  using additive_count_nonneg [of s] by (simp add: additivePenalty_def)

lemma computeHealthScore_Some:
  "computeHealthScore (Some s) =
     Some (max 0 (100 - (if flag s ''palmOil'' then 10 else 0)
                      - (if flag s ''addedSugar'' then 15 else 0)
                      - (if flag s ''addedSalt'' then 10 else 0)
                      - (if flag s ''msgLikeEnhancer'' then 15 else 0)
                      - additivePenalty s))"
  by (simp add: computeHealthScore_def Let_def)

lemma flag_present_and_true: "flag s k = present_and_true s k"
  by (auto simp: flag_def present_and_true_def split: option.splits)

lemma table_sum_bounds:
  "0 \<le> (\<Sum>(k, p) \<leftarrow> penalty_table. if present_and_true s k then p else 0) \<and>
   (\<Sum>(k, p) \<leftarrow> penalty_table. if present_and_true s k then p else (0::int)) \<le> 50"
  by (simp add: penalty_table_def)

lemma spec_score_range: "0 \<le> spec_score s \<and> spec_score s \<le> 100"
proof -
  have "0 \<le> min (2 * (case additives s of None \<Rightarrow> 0 | Some a \<Rightarrow> int (length a))) 20"
    by (simp split: option.splits)
  with table_sum_bounds [of s] show ?thesis
    unfolding spec_score_def by linarith
qed

lemma computeHealthScore_spec: "computeHealthScore (Some s) = Some (spec_score s)"
  by (simp add: computeHealthScore_Some spec_score_def penalty_table_def
      flag_present_and_true additivePenalty_def additive_count_length mult.commute)

lemma score_agree:
  assumes "\<forall>k\<in>set scored_keys. flag s k = flag s' k"
    and "additive_count s = additive_count s'"
  shows "computeHealthScore (Some s) = computeHealthScore (Some s')"
  using assms by (simp add: computeHealthScore_Some scored_keys_def additivePenalty_def)

lemma map_of_build_aux:
  "map_of (foldl (\<lambda>obj e. assign (fst e) (snd e) obj) acc es) = map_of (rev es @ acc)"
  by (induction es arbitrary: acc) (auto simp: map_of_assign fun_eq_iff map_add_def split: option.splits)

lemma map_of_build: "map_of (build es) = map_of (rev es)"
  by (simp add: build_def map_of_build_aux)

lemma map_of_perm:
  assumes "distinct (map fst es)" and "mset es' = mset es"
  shows "map_of es' = map_of es"
proof -
  have "mset (map fst es') = mset (map fst es)"
    using assms(2) by (metis mset_map)
  then have "distinct (map fst es')"
    using assms(1) by (metis mset_eq_imp_distinct_iff)
  moreover have "set es' = set es"
    using assms(2) by (metis mset_eq_setD)
  ultimately show ?thesis
    using assms(1) by (simp add: map_of_inject_set)
qed

lemma map_of_build_distinct:
  assumes "distinct (map fst es)"
  shows "map_of (build es) = map_of es"
proof -
  have "map_of (rev es) = map_of es"
    by (rule map_of_perm [OF assms]) simp
  then show ?thesis by (simp add: map_of_build)
qed

subsection \<open>Lemmas on the controller\<close>

lemmas action_defs =
  return_def throw_def await_def settle_def bind_def try_catch_def try_finally_def
  setImageUri_def setLines_def setStructured_def setBusy_def

lemmas result_defs = final_state_def effects_def completion_def

lemma acquire_indep:
  "acquire env s = (s, effects (acquire env s'), completion (acquire env s'))"
  by (simp add: acquire_def action_defs result_defs split: outcome.splits)

lemma acquire_effects:
  "e \<in> set (effects (acquire env s)) \<Longrightarrow> \<not> is_Alert e \<and> \<not> is_Fetch_post e"
  by (auto simp: acquire_def action_defs result_defs split: outcome.splits if_splits)

lemma encode_indep:
  "encode env a s = (s, effects (encode env a s'), completion (encode env a s'))"
  by (simp add: encode_def action_defs result_defs split: outcome.splits)

lemma encode_effects:
  "e \<in> set (effects (encode env a s)) \<Longrightarrow> \<not> is_Alert e \<and> \<not> is_Fetch_post e"
  by (auto simp: encode_def action_defs result_defs split: outcome.splits if_splits)

lemma try_finally_setBusy:
  assumes "try_finally m (setBusy b) s = (s', fx, r)" and "r \<noteq> Pending"
  shows "busy s' = b"
  using assms
  by (auto simp: try_finally_def setBusy_def split: prod.splits outcome.splits)

lemma pickAndScan_unfold:
  "pickAndScan env s =
     try_finally (try_catch (try_block env) (catch_block env)) (setBusy False)
       (s\<lparr>lines := JArr [], structured := JNull, busy := True\<rparr>)"
  by (simp add: pickAndScan_def bind_def setLines_def setStructured_def setBusy_def)

lemma pickAndScan_cancelled:
  assumes "completion (acquire env s) = Resolves result" and "canceled result"
  shows "pickAndScan env s =
           (s\<lparr>lines := JArr [], structured := JNull, busy := False\<rparr>,
            effects (acquire env s), Resolves ())"
proof -
  define fxA where "fxA = effects (acquire env s)"
  have A: "acquire env s1 = (s1, fxA, Resolves result)" for s1
    using acquire_indep [of env s1 s] assms(1) by (simp add: fxA_def)
  show ?thesis
    unfolding fxA_def [symmetric]
    by (simp add: pickAndScan_unfold try_block_def action_defs A assms(2))
qed

lemma pickAndScan_server_error:
  assumes "completion (acquire env s) = Resolves result"
    and "\<not> canceled result"
    and "assets result = Some (a # rest)"
    and "completion (encode env a s) = Resolves form"
    and "fetch_post env (BACKEND_URL env @ ''/ocr'') form = Resolves resp"
    and "\<not> ok resp"
  shows "pickAndScan env s =
           (s\<lparr>lines := JArr [], structured := JNull, busy := False, imageUri := Some (uri a)\<rparr>,
            effects (acquire env s) @ effects (encode env a s) @
              [Fetch_post (BACKEND_URL env @ ''/ocr'') form,
               Alert ''OCR failed'' (''Server error: '' @ string_of_nat (status resp))],
            Resolves ())"
proof -
  define fxA where "fxA = effects (acquire env s)"
  have A: "acquire env s1 = (s1, fxA, Resolves result)" for s1
    using acquire_indep [of env s1 s] assms(1) by (simp add: fxA_def)
  define fxE where "fxE = effects (encode env a s)"
  have E: "encode env a s1 = (s1, fxE, Resolves form)" for s1
    using encode_indep [of env a s1 s] assms(4) by (simp add: fxE_def)
  show ?thesis
    unfolding fxA_def [symmetric] fxE_def [symmetric]
    by (simp add: pickAndScan_unfold try_block_def first_asset_def uploadToBackend_def
        catch_block_def action_defs A E assms(2,3,5,6))
qed

lemma pickAndScan_success:
  assumes "completion (acquire env s) = Resolves result"
    and "\<not> canceled result"
    and "assets result = Some (a # rest)"
    and "completion (encode env a s) = Resolves form"
    and "fetch_post env (BACKEND_URL env @ ''/ocr'') form = Resolves resp"
    and "ok resp"
    and "json resp = Resolves j"
  shows "pickAndScan env s =
           (s\<lparr>lines := js_or (member j ''lines'') (JArr []),
              structured := js_or (member j ''structured'') JNull,
              busy := False, imageUri := Some (uri a)\<rparr>,
            effects (acquire env s) @ effects (encode env a s) @
              [Fetch_post (BACKEND_URL env @ ''/ocr'') form],
            Resolves ())"
proof -
  define fxA where "fxA = effects (acquire env s)"
  have A: "acquire env s1 = (s1, fxA, Resolves result)" for s1
    using acquire_indep [of env s1 s] assms(1) by (simp add: fxA_def)
  define fxE where "fxE = effects (encode env a s)"
  have E: "encode env a s1 = (s1, fxE, Resolves form)" for s1
    using encode_indep [of env a s1 s] assms(4) by (simp add: fxE_def)
  show ?thesis
    unfolding fxA_def [symmetric] fxE_def [symmetric]
    by (simp add: pickAndScan_unfold try_block_def first_asset_def uploadToBackend_def
        catch_block_def action_defs A E assms(2,3,5,6,7))
qed

lemma digit_value_digit: "d < 10 \<Longrightarrow> digit_value (digit d) = d"
proof -
  assume "d < 10"
  then have "d \<in> {0, 1, 2, 3, 4, 5, 6, 7, 8, 9}" by auto
  then show ?thesis
    by (auto simp: digit_value_def digit_def)
qed

lemma decimal_value_snoc: "decimal_value (ds @ [c]) = 10 * decimal_value ds + digit_value c"
  by (simp add: decimal_value_def)

lemma decimal_value_string_of_nat: "decimal_value (string_of_nat n) = n"
proof (induction n rule: string_of_nat.induct)
  case (1 n)
  show ?case
  proof (cases "n < 10")
    case True
    then show ?thesis
      by (subst string_of_nat.simps) (simp add: decimal_value_def digit_value_digit)
  next
    case False
    then have "decimal_value (string_of_nat (n div 10)) = n div 10"
      using "1.IH" by simp
    with False show ?thesis
      by (subst string_of_nat.simps) (simp add: decimal_value_snoc digit_value_digit)
  qed
qed

lemma pickAndScan_ignores_busy: "pickAndScan env (s\<lparr>busy := b\<rparr>) = pickAndScan env s"
  by (simp add: pickAndScan_unfold)

lemma uploadToBackend_server_error:
  assumes "fetch_post env (BACKEND_URL env @ ''/ocr'') form = Resolves resp"
    and "\<not> ok resp"
  shows "uploadToBackend env form s =
           (s, [Fetch_post (BACKEND_URL env @ ''/ocr'') form],
            Rejects (Thrown (Some (''Server error: '' @ string_of_nat (status resp)))))"
  using assms by (simp add: uploadToBackend_def action_defs)

lemma acquire_fetch_post: "acquire (env\<lparr>fetch_post := f\<rparr>) = acquire env"
  by (simp add: acquire_def cong: if_cong)

lemma encode_fetch_post: "encode (env\<lparr>fetch_post := f\<rparr>) a = encode env a"
  by (simp add: encode_def cong: if_cong)

lemmas scan_defs =
  pickAndScan_def try_block_def catch_block_def acquire_def first_asset_def encode_def
  uploadToBackend_def BACKEND_URL_def action_defs result_defs

subsection \<open>Claims about the score engine\<close>

text \<open>
  Claim C1. \<open>computeHealthScore\<close> of an absent result is absent. For a present result
  it is the score of the specification: 100, minus 10 for \<open>palmOil\<close>, 15 for
  \<open>addedSugar\<close>, 10 for \<open>addedSalt\<close> and 15 for \<open>msgLikeEnhancer\<close> where the flag is
  present and true, minus \<open>min(2 \<times> length of additives, 20)\<close>, clamped at 0; the
  value lies between 0 and 100. A flag outside the four keys does not count: assigning
  it leaves the score as it is, and two results with the same additives that agree on
  the four keys have the same score.
\<close>

theorem computeHealthScore_formula:
  "computeHealthScore None = None \<and>
   computeHealthScore (Some s) = Some (spec_score s) \<and>
   computeHealthScore (Some s) =
     Some (max 0 (100 - (if present_and_true s ''palmOil'' then 10 else 0)
                      - (if present_and_true s ''addedSugar'' then 15 else 0)
                      - (if present_and_true s ''addedSalt'' then 10 else 0)
                      - (if present_and_true s ''msgLikeEnhancer'' then 15 else 0)
                      - min (2 * (case additives s of None \<Rightarrow> 0 | Some a \<Rightarrow> int (length a))) 20)) \<and>
   (\<exists>v. computeHealthScore (Some s) = Some v \<and> 0 \<le> v \<and> v \<le> 100) \<and>
   (k \<notin> set scored_keys \<longrightarrow>
      computeHealthScore (Some (s\<lparr>flags := Some (assign k b fl)\<rparr>)) =
      computeHealthScore (Some (s\<lparr>flags := Some fl\<rparr>))) \<and>
   ((\<forall>k \<in> set scored_keys. present_and_true s k = present_and_true s' k) \<and>
    additives s = additives s' \<longrightarrow>
      computeHealthScore (Some s) = computeHealthScore (Some s'))"
proof -
  have a: "computeHealthScore None = None"
    by (simp add: computeHealthScore_def)
  have b: "computeHealthScore (Some s) = Some (spec_score s)"
    by (rule computeHealthScore_spec)
  have c: "spec_score s = max 0 (100 - (if present_and_true s ''palmOil'' then 10 else 0)
                      - (if present_and_true s ''addedSugar'' then 15 else 0)
                      - (if present_and_true s ''addedSalt'' then 10 else 0)
                      - (if present_and_true s ''msgLikeEnhancer'' then 15 else 0)
                      - min (2 * (case additives s of None \<Rightarrow> 0 | Some a \<Rightarrow> int (length a))) 20)"
    by (simp add: spec_score_def penalty_table_def)
  have d: "computeHealthScore (Some (s\<lparr>flags := Some (assign k b fl)\<rparr>)) =
      computeHealthScore (Some (s\<lparr>flags := Some fl\<rparr>))" if "k \<notin> set scored_keys"
  proof (rule score_agree)
    show "\<forall>k'\<in>set scored_keys. flag (s\<lparr>flags := Some (assign k b fl)\<rparr>) k' = flag (s\<lparr>flags := Some fl\<rparr>) k'"
      using that by (auto simp: flag_def map_of_assign)
    show "additive_count (s\<lparr>flags := Some (assign k b fl)\<rparr>) = additive_count (s\<lparr>flags := Some fl\<rparr>)"
      by (simp add: additive_count_def)
  qed
  have e: "computeHealthScore (Some s) = computeHealthScore (Some s')"
    if "\<forall>k \<in> set scored_keys. present_and_true s k = present_and_true s' k"
      and "additives s = additives s'"
    using that by (intro score_agree) (simp_all add: flag_present_and_true additive_count_def)
  have bc: "computeHealthScore (Some s) =
     Some (max 0 (100 - (if present_and_true s ''palmOil'' then 10 else 0)
                      - (if present_and_true s ''addedSugar'' then 15 else 0)
                      - (if present_and_true s ''addedSalt'' then 10 else 0)
                      - (if present_and_true s ''msgLikeEnhancer'' then 15 else 0)
                      - min (2 * (case additives s of None \<Rightarrow> 0 | Some a \<Rightarrow> int (length a))) 20))"
    using b c by simp
  have r: "\<exists>v. computeHealthScore (Some s) = Some v \<and> 0 \<le> v \<and> v \<le> 100"
    using spec_score_range [of s] b by simp
  show ?thesis
    using a b bc r d e by blast
qed

theorem computeHealthScore_formula_witness:
  "''organic'' \<notin> set scored_keys \<and>
   computeHealthScore (Some (example_structured\<lparr>flags := Some (assign ''organic'' True [(''addedSugar'', True)])\<rparr>)) =
   computeHealthScore (Some (example_structured\<lparr>flags := Some [(''addedSugar'', True)]\<rparr>)) \<and>
   computeHealthScore (Some (example_structured\<lparr>allergens := Some [''milk'']\<rparr>)) =
   computeHealthScore (Some example_structured) \<and>
   computeHealthScore (Some example_structured) = Some 30"
  using computeHealthScore_formula
    [of example_structured "''organic''" True "[(''addedSugar'', True)]"
        "example_structured\<lparr>allergens := Some [''milk'']\<rparr>"]
  by (auto simp: scored_keys_def present_and_true_def spec_score_def penalty_table_def
      example_structured_def example_flags_def)

text \<open>
  Claim C3, as amended. With all four scored flags true and at least ten additives the
  score is 30, that is \<open>100 - 10 - 15 - 10 - 15 - 20\<close>. The claim's value of 10 is not
  what the code returns: the counterexample is a product with the four flags and ten
  additives.
\<close>

theorem all_flags_ten_additives:
  assumes "flags s = Some fl"
    and "\<forall>k \<in> set scored_keys. map_of fl k = Some True"
    and "additives s = Some a"
    and "10 \<le> length a"
  shows "computeHealthScore (Some s) = Some 30"
proof -
  have "flag s ''palmOil''" "flag s ''addedSugar''" "flag s ''addedSalt''" "flag s ''msgLikeEnhancer''"
    using assms(1,2) by (simp_all add: flag_def scored_keys_def)
  moreover have "additivePenalty s = 20"
    using assms(3,4) by (simp add: additivePenalty_def additive_count_length)
  ultimately show ?thesis
    by (simp add: computeHealthScore_Some)
qed

theorem all_flags_ten_additives_witness:
  "flags example_structured = Some example_flags \<and>
   map_of example_flags ''palmOil'' = Some True \<and>
   map_of example_flags ''addedSugar'' = Some True \<and>
   map_of example_flags ''addedSalt'' = Some True \<and>
   map_of example_flags ''msgLikeEnhancer'' = Some True \<and>
   additives example_structured = Some (replicate 10 \<lparr>code = ''E330'', additive_name = None\<rparr>) \<and>
   computeHealthScore (Some example_structured) = Some 30"
  using all_flags_ten_additives
    [of example_structured example_flags "replicate 10 \<lparr>code = ''E330'', additive_name = None\<rparr>"]
  by (simp add: scored_keys_def example_structured_def example_flags_def)

theorem all_flags_ten_additives_counterexample:
  "map_of example_flags ''palmOil'' = Some True \<and>
   map_of example_flags ''addedSugar'' = Some True \<and>
   map_of example_flags ''addedSalt'' = Some True \<and>
   map_of example_flags ''msgLikeEnhancer'' = Some True \<and>
   flags example_structured = Some example_flags \<and>
   additives example_structured = Some (replicate 10 \<lparr>code = ''E330'', additive_name = None\<rparr>) \<and>
   length (replicate 10 \<lparr>code = ''E330'', additive_name = None\<rparr>) = 10 \<and>
   computeHealthScore (Some example_structured) \<noteq> Some 10"
  by (simp add: computeHealthScore_Some flag_def additivePenalty_def additive_count_def
      example_structured_def example_flags_def)

text \<open>
  Claim C8. The score does not depend on order: for flags with distinct keys, listing
  the same entries in another order, or building the object by assigning them in
  another order, and permuting the additives, gives the same score.
\<close>

theorem score_order_independent:
  assumes "distinct (map fst es)"
    and "mset es' = mset es"
    and "mset a' = mset a"
  shows "computeHealthScore (Some (s\<lparr>flags := Some es', additives := Some a'\<rparr>)) =
         computeHealthScore (Some (s\<lparr>flags := Some es, additives := Some a\<rparr>)) \<and>
         computeHealthScore (Some (s\<lparr>flags := Some (build es'), additives := Some a'\<rparr>)) =
         computeHealthScore (Some (s\<lparr>flags := Some (build es), additives := Some a\<rparr>))"
proof -
  have d': "distinct (map fst es')"
    using assms(1,2) by (metis mset_map mset_eq_imp_distinct_iff)
  have m: "map_of es' = map_of es"
    by (rule map_of_perm [OF assms(1,2)])
  have mb: "map_of (build es') = map_of (build es)"
    using m by (simp add: map_of_build_distinct assms(1) d')
  have len: "length a' = length a"
    using assms(3) by (metis size_mset)
  have "computeHealthScore (Some (s\<lparr>flags := Some es', additives := Some a'\<rparr>)) =
        computeHealthScore (Some (s\<lparr>flags := Some es, additives := Some a\<rparr>))"
    by (rule score_agree) (simp_all add: flag_def m additive_count_def len)
  moreover have "computeHealthScore (Some (s\<lparr>flags := Some (build es'), additives := Some a'\<rparr>)) =
        computeHealthScore (Some (s\<lparr>flags := Some (build es), additives := Some a\<rparr>))"
    by (rule score_agree) (simp_all add: flag_def mb additive_count_def len)
  ultimately show ?thesis by simp
qed

theorem score_order_independent_witness:
  "distinct (map fst [(''palmOil'', True), (''addedSalt'', False), (''vegan'', True)]) \<and>
   mset [(''vegan'', True), (''palmOil'', True), (''addedSalt'', False)] =
     mset [(''palmOil'', True), (''addedSalt'', False), (''vegan'', True)] \<and>
   mset [\<lparr>code = ''E100'', additive_name = None\<rparr>, \<lparr>code = ''E330'', additive_name = Some ''citric acid''\<rparr>] =
     mset [\<lparr>code = ''E330'', additive_name = Some ''citric acid''\<rparr>, \<lparr>code = ''E100'', additive_name = None\<rparr>] \<and>
   computeHealthScore (Some (example_structured
      \<lparr>flags := Some [(''vegan'', True), (''palmOil'', True), (''addedSalt'', False)],
       additives := Some [\<lparr>code = ''E100'', additive_name = None\<rparr>, \<lparr>code = ''E330'', additive_name = Some ''citric acid''\<rparr>]\<rparr>)) =
   computeHealthScore (Some (example_structured
      \<lparr>flags := Some [(''palmOil'', True), (''addedSalt'', False), (''vegan'', True)],
       additives := Some [\<lparr>code = ''E330'', additive_name = Some ''citric acid''\<rparr>, \<lparr>code = ''E100'', additive_name = None\<rparr>]\<rparr>)) \<and>
   computeHealthScore (Some (example_structured
      \<lparr>flags := Some (build [(''vegan'', True), (''palmOil'', True), (''addedSalt'', False)]),
       additives := Some [\<lparr>code = ''E100'', additive_name = None\<rparr>, \<lparr>code = ''E330'', additive_name = Some ''citric acid''\<rparr>]\<rparr>)) =
   computeHealthScore (Some (example_structured
      \<lparr>flags := Some (build [(''palmOil'', True), (''addedSalt'', False), (''vegan'', True)]),
       additives := Some [\<lparr>code = ''E330'', additive_name = Some ''citric acid''\<rparr>, \<lparr>code = ''E100'', additive_name = None\<rparr>]\<rparr>))"
  using score_order_independent
    [of "[(''palmOil'', True), (''addedSalt'', False), (''vegan'', True)]"
        "[(''vegan'', True), (''palmOil'', True), (''addedSalt'', False)]"
        "[\<lparr>code = ''E100'', additive_name = None\<rparr>, \<lparr>code = ''E330'', additive_name = Some ''citric acid''\<rparr>]"
        "[\<lparr>code = ''E330'', additive_name = Some ''citric acid''\<rparr>, \<lparr>code = ''E100'', additive_name = None\<rparr>]"
        example_structured]
  by (simp add: add_mset_commute)

text \<open>
  Claim C9. The additive penalty is monotone in the number of additives and never
  exceeds 20: no additives give 0, ten give 20, fifty still give 20.
\<close>

theorem additivePenalty_monotone_capped:
  "(length a \<le> length a' \<longrightarrow>
      additivePenalty (s\<lparr>additives := Some a\<rparr>) \<le> additivePenalty (s'\<lparr>additives := Some a'\<rparr>)) \<and>
   additivePenalty s \<le> 20 \<and>
   additivePenalty (s\<lparr>additives := None\<rparr>) = 0 \<and>
   (length a = 0 \<longrightarrow> additivePenalty (s\<lparr>additives := Some a\<rparr>) = 0) \<and>
   (length a = 10 \<longrightarrow> additivePenalty (s\<lparr>additives := Some a\<rparr>) = 20) \<and>
   (length a = 50 \<longrightarrow> additivePenalty (s\<lparr>additives := Some a\<rparr>) = 20)"
  by (auto simp: additivePenalty_def additive_count_length)

theorem additivePenalty_monotone_capped_witness:
  "length [\<lparr>code = ''E100'', additive_name = None\<rparr>] \<le>
     length (replicate 10 \<lparr>code = ''E330'', additive_name = None\<rparr>) \<and>
   additivePenalty (example_structured\<lparr>additives := Some [\<lparr>code = ''E100'', additive_name = None\<rparr>]\<rparr>) \<le>
     additivePenalty example_structured \<and>
   additivePenalty (example_structured\<lparr>additives := Some [\<lparr>code = ''E100'', additive_name = None\<rparr>]\<rparr>) = 2 \<and>
   additivePenalty (example_structured\<lparr>additives := Some []\<rparr>) = 0 \<and>
   additivePenalty example_structured = 20 \<and>
   additivePenalty (example_structured
      \<lparr>additives := Some (replicate 50 \<lparr>code = ''E330'', additive_name = None\<rparr>)\<rparr>) = 20"
  using
    additivePenalty_monotone_capped
      [of "[\<lparr>code = ''E100'', additive_name = None\<rparr>]"
          "replicate 10 \<lparr>code = ''E330'', additive_name = None\<rparr>"
          example_structured example_structured]
    additivePenalty_monotone_capped [of "[]" "[]" example_structured example_structured]
    additivePenalty_monotone_capped
      [of "replicate 10 \<lparr>code = ''E330'', additive_name = None\<rparr>" "[]"
          example_structured example_structured]
    additivePenalty_monotone_capped
      [of "replicate 50 \<lparr>code = ''E330'', additive_name = None\<rparr>" "[]"
          example_structured example_structured]
  by (simp add: additivePenalty_def additive_count_def example_structured_def)

text \<open>
  Claim C10. The score of a present result is at least 30, and the clamp at 0 never
  acts: the score is \<open>100\<close> minus the flag penalties minus the additive penalty.
\<close>

theorem score_at_least_30:
  "\<exists>v. computeHealthScore (Some s) = Some v \<and> 30 \<le> v \<and>
       v = 100 - (if flag s ''palmOil'' then 10 else 0)
               - (if flag s ''addedSugar'' then 15 else 0)
               - (if flag s ''addedSalt'' then 10 else 0)
               - (if flag s ''msgLikeEnhancer'' then 15 else 0)
               - additivePenalty s"
proof -
  have "additivePenalty s \<le> 20"
    using additivePenalty_bounds [of s] by simp
  then show ?thesis
    by (simp add: computeHealthScore_Some)
qed

subsection \<open>Claims about the scan session controller\<close>

text \<open>
  Claim C2, as amended. While \<open>busy\<close> is true the scan button is disabled: pressing it
  calls nothing, so no capture or upload starts, no request is issued and the session
  is unchanged; while \<open>busy\<close> is false a press runs \<open>pickAndScan\<close>. The guard is the
  button's alone: \<open>pickAndScan\<close> never reads \<open>busy\<close> and runs the same scan whatever its
  value. The counterexample calls \<open>pickAndScan\<close> on a busy session: it clears the lines,
  takes a photo, posts it and shows an alert.
\<close>

theorem button_disabled_while_busy:
  "(busy s \<longrightarrow> Button_onPress env s = (s, [], Resolves ())) \<and>
   (\<not> busy s \<longrightarrow> Button_onPress env s = pickAndScan env s) \<and>
   pickAndScan env (s\<lparr>busy := True\<rparr>) = pickAndScan env (s\<lparr>busy := False\<rparr>)"
  by (simp add: Button_onPress_def pickAndScan_ignores_busy)

theorem button_disabled_while_busy_witness:
  "busy busy_session \<and>
   Button_onPress example_env busy_session = (busy_session, [], Resolves ()) \<and>
   \<not> busy initial_session \<and>
   Button_onPress example_env initial_session = pickAndScan example_env initial_session"
  using button_disabled_while_busy [of busy_session example_env]
    button_disabled_while_busy [of initial_session example_env]
  by (simp add: busy_session_def initial_session_def)

theorem pickAndScan_while_busy_counterexample:
  "busy busy_session \<and>
   final_state (pickAndScan example_env busy_session) =
     \<lparr>imageUri = Some ''file:///photo.jpg'', lines = JArr [], structured = JNull, busy = False\<rparr> \<and>
   final_state (pickAndScan example_env busy_session) \<noteq> busy_session \<and>
   effects (pickAndScan example_env busy_session) =
     [Request_permission, Launch_camera 1,
      Fetch_post ''http://192.168.1.35:8000/ocr'' example_form,
      Alert ''OCR failed'' ''Server error: 500'']"
  by (simp add: scan_defs busy_session_def example_env_def example_form_def
      string_of_nat.simps digit_def)

text \<open>
  Claim C4. Whenever \<open>pickAndScan\<close> completes, by returning or by throwing, \<open>busy\<close> is
  false afterwards: on success, on cancellation, and when any awaited step rejects
  (permission, capture, encoding, network, server, a body that is not JSON), also when
  the \<open>catch\<close> block itself throws.
\<close>

theorem busy_false_when_done:
  "completion (pickAndScan env s) \<noteq> Pending \<longrightarrow> \<not> busy (final_state (pickAndScan env s))"
proof
  assume np: "completion (pickAndScan env s) \<noteq> Pending"
  obtain s' fx r where run: "pickAndScan env s = (s', fx, r)"
    by (cases "pickAndScan env s") auto
  have "busy s' = False"
  proof (rule try_finally_setBusy)
    show "try_finally (try_catch (try_block env) (catch_block env)) (setBusy False)
       (s\<lparr>lines := JArr [], structured := JNull, busy := True\<rparr>) = (s', fx, r)"
      using run by (simp add: pickAndScan_unfold)
    show "r \<noteq> Pending"
      using np run by (simp add: completion_def)
  qed
  then show "\<not> busy (final_state (pickAndScan env s))"
    by (simp add: run final_state_def)
qed

theorem busy_false_when_done_witness:
  "completion (pickAndScan (example_env\<lparr>requestCameraPermissionsAsync := Resolves ''denied''\<rparr>)
      initial_session) = Resolves () \<and>
   effects (pickAndScan (example_env\<lparr>requestCameraPermissionsAsync := Resolves ''denied''\<rparr>)
      initial_session) = [Request_permission, Alert ''OCR failed'' ''Camera permission denied''] \<and>
   \<not> busy (final_state
      (pickAndScan (example_env\<lparr>requestCameraPermissionsAsync := Resolves ''denied''\<rparr>)
         initial_session)) \<and>
   completion (pickAndScan (example_env\<lparr>launchCameraAsync := Rejects Nullish\<rparr>) initial_session) =
     Rejects (Thrown (Some ''Cannot read property of undefined'')) \<and>
   \<not> busy (final_state
      (pickAndScan (example_env\<lparr>launchCameraAsync := Rejects Nullish\<rparr>) initial_session))"
  using busy_false_when_done
      [of "example_env\<lparr>requestCameraPermissionsAsync := Resolves ''denied''\<rparr>" initial_session]
    busy_false_when_done
      [of "example_env\<lparr>launchCameraAsync := Rejects Nullish\<rparr>" initial_session]
  by (simp add: scan_defs example_env_def initial_session_def)

text \<open>
  Claim C5. When the capture step resolves with a cancelled result, \<open>pickAndScan\<close>
  returns with \<open>busy\<close> false, \<open>lines\<close> the empty array, \<open>structured\<close> null and the
  image URI as it was; the only outside calls are those of the capture step, so no alert
  is shown and nothing is uploaded.
\<close>

theorem cancelled_capture:
  assumes "completion (acquire env s) = Resolves result"
    and "canceled result"
  shows "completion (pickAndScan env s) = Resolves () \<and>
         \<not> busy (final_state (pickAndScan env s)) \<and>
         lines (final_state (pickAndScan env s)) = JArr [] \<and>
         structured (final_state (pickAndScan env s)) = JNull \<and>
         imageUri (final_state (pickAndScan env s)) = imageUri s \<and>
         effects (pickAndScan env s) = effects (acquire env s) \<and>
         filter is_Alert (effects (pickAndScan env s)) = [] \<and>
         filter is_Fetch_post (effects (pickAndScan env s)) = []"
proof -
  have run: "pickAndScan env s =
           (s\<lparr>lines := JArr [], structured := JNull, busy := False\<rparr>,
            effects (acquire env s), Resolves ())"
    by (rule pickAndScan_cancelled [OF assms])
  have "filter is_Alert (effects (acquire env s)) = []"
    and "filter is_Fetch_post (effects (acquire env s)) = []"
    using acquire_effects [of _ env s] by (simp_all add: filter_empty_conv)
  then show ?thesis
    by (simp add: run result_defs)
qed

theorem cancelled_capture_witness:
  "completion (acquire (example_env\<lparr>launchCameraAsync := Resolves \<lparr>canceled = True, assets = None\<rparr>\<rparr>)
      busy_session) = Resolves \<lparr>canceled = True, assets = None\<rparr> \<and>
   pickAndScan (example_env\<lparr>launchCameraAsync := Resolves \<lparr>canceled = True, assets = None\<rparr>\<rparr>)
      busy_session =
     (\<lparr>imageUri = None, lines = JArr [], structured = JNull, busy = False\<rparr>,
      [Request_permission, Launch_camera 1], Resolves ())"
  using cancelled_capture
      [of "example_env\<lparr>launchCameraAsync := Resolves \<lparr>canceled = True, assets = None\<rparr>\<rparr>"
          busy_session "\<lparr>canceled = True, assets = None\<rparr>"]
  by (simp add: scan_defs example_env_def busy_session_def)

text \<open>
  Claim C6. When the POST resolves with a response that is not \<open>ok\<close>,
  \<open>uploadToBackend\<close> rejects with an error whose message is \<open>Server error: \<close> followed
  by the status in decimal. In a scan that reaches this upload, the one alert shown
  is \<open>OCR failed\<close> with that message, the one request is this POST, and the scan
  returns with \<open>busy\<close> false.
\<close>

theorem server_error_alert:
  assumes "fetch_post env (BACKEND_URL env @ ''/ocr'') form = Resolves resp"
    and "\<not> ok resp"
  shows "completion (uploadToBackend env form s) =
           Rejects (Thrown (Some (''Server error: '' @ string_of_nat (status resp)))) \<and>
         decimal_value (string_of_nat (status resp)) = status resp \<and>
         (completion (acquire env s) = Resolves result \<and> \<not> canceled result \<and>
          assets result = Some (a # rest) \<and> completion (encode env a s) = Resolves form \<longrightarrow>
            filter is_Alert (effects (pickAndScan env s)) =
              [Alert ''OCR failed'' (''Server error: '' @ string_of_nat (status resp))] \<and>
            filter is_Fetch_post (effects (pickAndScan env s)) =
              [Fetch_post (BACKEND_URL env @ ''/ocr'') form] \<and>
            \<not> busy (final_state (pickAndScan env s)) \<and>
            completion (pickAndScan env s) = Resolves ())"
proof -
  have up: "completion (uploadToBackend env form s) =
           Rejects (Thrown (Some (''Server error: '' @ string_of_nat (status resp))))"
    by (simp add: uploadToBackend_server_error [OF assms] completion_def)
  have scan: "filter is_Alert (effects (pickAndScan env s)) =
              [Alert ''OCR failed'' (''Server error: '' @ string_of_nat (status resp))] \<and>
            filter is_Fetch_post (effects (pickAndScan env s)) =
              [Fetch_post (BACKEND_URL env @ ''/ocr'') form] \<and>
            \<not> busy (final_state (pickAndScan env s)) \<and>
            completion (pickAndScan env s) = Resolves ()"
    if h: "completion (acquire env s) = Resolves result" "\<not> canceled result"
      "assets result = Some (a # rest)" "completion (encode env a s) = Resolves form"
  proof -
    have fa: "filter is_Alert (effects (acquire env s)) = []"
      and fp: "filter is_Fetch_post (effects (acquire env s)) = []"
      using acquire_effects [of _ env s] by (simp_all add: filter_empty_conv)
    have ea: "filter is_Alert (effects (encode env a s)) = []"
      and ep: "filter is_Fetch_post (effects (encode env a s)) = []"
      using encode_effects [of _ env a s] by (simp_all add: filter_empty_conv)
    show ?thesis
      by (simp add: pickAndScan_server_error [OF h assms] result_defs
          fa fp ea ep [unfolded effects_def] fa [unfolded effects_def] fp [unfolded effects_def]
          ea [unfolded effects_def])
  qed
  from up scan decimal_value_string_of_nat [of "status resp"] show ?thesis by blast
qed

theorem server_error_alert_witness:
  "fetch_post example_env (BACKEND_URL example_env @ ''/ocr'') example_form =
     Resolves \<lparr>ok = False, status = 500, json = Pending\<rparr> \<and>
   completion (uploadToBackend example_env example_form initial_session) =
     Rejects (Thrown (Some ''Server error: 500'')) \<and>
   filter is_Alert (effects (pickAndScan example_env initial_session)) =
     [Alert ''OCR failed'' ''Server error: 500''] \<and>
   \<not> busy (final_state (pickAndScan example_env initial_session))"
  using server_error_alert
      [of example_env example_form "\<lparr>ok = False, status = 500, json = Pending\<rparr>" initial_session
          "\<lparr>canceled = False, assets = Some [\<lparr>uri = ''file:///photo.jpg''\<rparr>]\<rparr>"
          "\<lparr>uri = ''file:///photo.jpg''\<rparr>" "[]"]
  by (simp add: scan_defs example_env_def example_form_def initial_session_def
      string_of_nat.simps digit_def)

text \<open>
  Claim C7. After a successful upload \<open>lines\<close> is the response's \<open>lines\<close> field, and the
  empty array when the field is missing; \<open>structured\<close> is the response's \<open>structured\<close>
  field, and null when the field is missing or null. (A field that is present with
  another falsy value, \<open>false\<close>, \<open>0\<close>, the empty string, and a null \<open>lines\<close>, is
  replaced by the default as well.) Nothing else of the response reaches the session:
  a response with the same two fields leaves the same session.
\<close>

theorem response_fields:
  assumes "completion (acquire env s) = Resolves result"
    and "\<not> canceled result"
    and "assets result = Some (a # rest)"
    and "completion (encode env a s) = Resolves form"
    and "fetch_post env (BACKEND_URL env @ ''/ocr'') form = Resolves resp"
    and "ok resp"
    and "json resp = Resolves j"
  shows "completion (pickAndScan env s) = Resolves () \<and>
         filter is_Alert (effects (pickAndScan env s)) = [] \<and>
         final_state (pickAndScan env s) =
           s\<lparr>imageUri := Some (uri a),
             lines := js_or (member j ''lines'') (JArr []),
             structured := js_or (member j ''structured'') JNull,
             busy := False\<rparr> \<and>
         lines (final_state (pickAndScan env s)) =
           (case member j ''lines'' of
              None \<Rightarrow> JArr []
            | Some (JArr xs) \<Rightarrow> JArr xs
            | Some v \<Rightarrow> if truthy v then v else JArr []) \<and>
         structured (final_state (pickAndScan env s)) =
           (case member j ''structured'' of
              None \<Rightarrow> JNull
            | Some JNull \<Rightarrow> JNull
            | Some (JObj kvs) \<Rightarrow> JObj kvs
            | Some v \<Rightarrow> if truthy v then v else JNull) \<and>
         (\<forall>j'. member j' ''lines'' = member j ''lines'' \<and>
               member j' ''structured'' = member j ''structured'' \<longrightarrow>
               final_state
                 (pickAndScan (env\<lparr>fetch_post := \<lambda>_ _. Resolves (resp\<lparr>json := Resolves j'\<rparr>)\<rparr>) s) =
               final_state (pickAndScan env s))"
proof -
  have fa: "filter is_Alert (effects (acquire env s)) = []"
    using acquire_effects [of _ env s] by (simp add: filter_empty_conv)
  have ea: "filter is_Alert (effects (encode env a s)) = []"
    using encode_effects [of _ env a s] by (simp add: filter_empty_conv)
  note run = pickAndScan_success [OF assms]
  have st: "final_state (pickAndScan env s) =
           s\<lparr>imageUri := Some (uri a),
             lines := js_or (member j ''lines'') (JArr []),
             structured := js_or (member j ''structured'') JNull,
             busy := False\<rparr>"
    by (simp add: run final_state_def)
  have l: "js_or (member j ''lines'') (JArr []) =
           (case member j ''lines'' of
              None \<Rightarrow> JArr []
            | Some (JArr xs) \<Rightarrow> JArr xs
            | Some v \<Rightarrow> if truthy v then v else JArr [])"
    by (simp add: js_or_def split: option.splits jsval.splits)
  have t: "js_or (member j ''structured'') JNull =
           (case member j ''structured'' of
              None \<Rightarrow> JNull
            | Some JNull \<Rightarrow> JNull
            | Some (JObj kvs) \<Rightarrow> JObj kvs
            | Some v \<Rightarrow> if truthy v then v else JNull)"
    by (simp add: js_or_def split: option.splits jsval.splits)
  have other: "final_state
                 (pickAndScan (env\<lparr>fetch_post := \<lambda>_ _. Resolves (resp\<lparr>json := Resolves j'\<rparr>)\<rparr>) s) =
               final_state (pickAndScan env s)"
    if same: "member j' ''lines'' = member j ''lines''"
      "member j' ''structured'' = member j ''structured''" for j'
  proof -
    let ?env' = "env\<lparr>fetch_post := \<lambda>_ _. Resolves (resp\<lparr>json := Resolves j'\<rparr>)\<rparr>"
    have 1: "completion (acquire ?env' s) = Resolves result"
      using assms(1) by (simp add: acquire_fetch_post)
    have 4: "completion (encode ?env' a s) = Resolves form"
      using assms(4) by (simp add: encode_fetch_post)
    have 5: "fetch_post ?env' (BACKEND_URL ?env' @ ''/ocr'') form = Resolves (resp\<lparr>json := Resolves j'\<rparr>)"
      by simp
    have "final_state (pickAndScan ?env' s) =
           s\<lparr>imageUri := Some (uri a),
             lines := js_or (member j' ''lines'') (JArr []),
             structured := js_or (member j' ''structured'') JNull,
             busy := False\<rparr>"
      using pickAndScan_success [OF 1 assms(2,3) 4 5, of j'] assms(6)
      by (simp add: final_state_def)
    then show ?thesis
      by (simp add: st same)
  qed
  have c: "completion (pickAndScan env s) = Resolves ()"
    by (simp add: run completion_def)
  have al: "filter is_Alert (effects (pickAndScan env s)) = []"
    by (simp add: run effects_def fa [unfolded effects_def] ea [unfolded effects_def])
  have ll: "lines (final_state (pickAndScan env s)) = js_or (member j ''lines'') (JArr [])"
    by (simp add: st)
  have tt: "structured (final_state (pickAndScan env s)) = js_or (member j ''structured'') JNull"
    by (simp add: st)
  show ?thesis
    using c al st ll [unfolded l] tt [unfolded t] other by blast
qed

theorem response_fields_witness:
  "final_state (pickAndScan example_env_ok initial_session) =
     \<lparr>imageUri = Some ''file:///photo.jpg'',
      lines = JArr [JObj [(''text'', JStr ''SUGAR'')]], structured = JNull, busy = False\<rparr> \<and>
   final_state
     (pickAndScan
        (example_env_ok\<lparr>fetch_post :=
           \<lambda>_ _. Resolves \<lparr>ok = True, status = 200,
                            json = Resolves (JObj [(''structured'', JNull),
                                   (''lines'', JArr [JObj [(''text'', JStr ''SUGAR'')]])])\<rparr>\<rparr>)
        initial_session) =
   final_state (pickAndScan example_env_ok initial_session) \<and>
   final_state
     (pickAndScan
        (example_env_ok\<lparr>fetch_post :=
           \<lambda>_ _. Resolves \<lparr>ok = True, status = 200, json = Resolves example_json_structured\<rparr>\<rparr>)
        initial_session) =
     \<lparr>imageUri = Some ''file:///photo.jpg'', lines = JArr [],
      structured = JObj [(''flags'', JObj [(''addedSugar'', JBool True)])], busy = False\<rparr>"
proof -
  let ?result = "\<lparr>canceled = False, assets = Some [\<lparr>uri = ''file:///photo.jpg''\<rparr>]\<rparr>"
  let ?a = "\<lparr>uri = ''file:///photo.jpg''\<rparr>"
  let ?resp = "\<lparr>ok = True, status = 200, json = Resolves example_json\<rparr>"
  let ?resp2 = "\<lparr>ok = True, status = 200, json = Resolves example_json_structured\<rparr>"
  let ?env2 = "example_env_ok\<lparr>fetch_post := \<lambda>_ _. Resolves ?resp2\<rparr>"
  note t1 = response_fields
    [of example_env_ok initial_session ?result ?a "[]" example_form ?resp example_json]
  note t2 = response_fields
    [of ?env2 initial_session ?result ?a "[]" example_form ?resp2 example_json_structured]
  have h1: "completion (acquire example_env_ok initial_session) = Resolves ?result"
    by (simp add: scan_defs example_env_ok_def example_env_def)
  have h4: "completion (encode example_env_ok ?a initial_session) = Resolves example_form"
    by (simp add: scan_defs example_env_ok_def example_env_def example_form_def)
  have h5: "fetch_post example_env_ok (BACKEND_URL example_env_ok @ ''/ocr'') example_form =
      Resolves ?resp"
    by (simp add: example_env_ok_def)
  have g1: "completion (acquire ?env2 initial_session) = Resolves ?result"
    by (simp add: scan_defs example_env_ok_def example_env_def)
  have g4: "completion (encode ?env2 ?a initial_session) = Resolves example_form"
    by (simp add: scan_defs example_env_ok_def example_env_def example_form_def)
  have r1: "final_state (pickAndScan example_env_ok initial_session) =
      initial_session
        \<lparr>imageUri := Some (uri ?a),
         lines := js_or (member example_json ''lines'') (JArr []),
         structured := js_or (member example_json ''structured'') JNull,
         busy := False\<rparr>"
    and o1: "\<forall>j'. member j' ''lines'' = member example_json ''lines'' \<and>
               member j' ''structured'' = member example_json ''structured'' \<longrightarrow>
               final_state
                 (pickAndScan
                    (example_env_ok\<lparr>fetch_post := \<lambda>_ _. Resolves (?resp\<lparr>json := Resolves j'\<rparr>)\<rparr>)
                    initial_session) =
               final_state (pickAndScan example_env_ok initial_session)"
    using t1 h1 h4 h5 by simp_all
  have r2: "final_state (pickAndScan ?env2 initial_session) =
      initial_session
        \<lparr>imageUri := Some (uri ?a),
         lines := js_or (member example_json_structured ''lines'') (JArr []),
         structured := js_or (member example_json_structured ''structured'') JNull,
         busy := False\<rparr>"
    using t2 g1 g4 by simp
  have o1': "final_state
       (pickAndScan
          (example_env_ok\<lparr>fetch_post :=
             \<lambda>_ _. Resolves \<lparr>ok = True, status = 200,
                json = Resolves (JObj [(''structured'', JNull),
                                   (''lines'', JArr [JObj [(''text'', JStr ''SUGAR'')]])])\<rparr>\<rparr>)
          initial_session) =
     final_state (pickAndScan example_env_ok initial_session)"
    using o1 [rule_format, of "JObj [(''structured'', JNull), (''lines'', JArr [JObj [(''text'', JStr ''SUGAR'')]])]"]
    by (simp add: example_json_def)
  show ?thesis
    using r1 r2 o1'
    by (simp add: js_or_def example_json_def example_json_structured_def initial_session_def)
qed

end
